theory Spec2Isabelle
  imports Complex_Main "HOL-Library.AList" "HOL-Library.Char_ord" "HOL-Library.List_Lexorder"
begin

unbundle bit_operations_syntax

section \<open>Strings, bytes and errors\<close>

text \<open>
  A Python \<open>str\<close> is modelled by its UTF-8 encoding, one \<open>char\<close> per byte, so that
  \<open>bytes(data, "utf-8")\<close> is the identity on the model. The characters the program inspects
  (\<open>/\<close>, \<open>.\<close>, \<open>_\<close>) are ASCII and never occur inside a multi-byte sequence, and the
  bytewise lexicographic order of UTF-8 is the code point order Python compares strings by.
  Exceptions are values of the type \<open>error\<close>, named after the Python exception raised.
\<close>

type_synonym bytes = "char list"

datatype error = BadZipFile | KeyError | IndexError | FileNotFoundError | IsADirectoryError

definition startswith :: "string \<Rightarrow> string \<Rightarrow> bool" where
  "startswith s pre = (take (length pre) s = pre)"

text \<open>\<open>s.rfind(c)\<close>: the highest index of \<open>c\<close> in \<open>s\<close>; \<open>None\<close> stands for Python's -1.\<close>

fun rfind :: "char \<Rightarrow> string \<Rightarrow> nat option" where
  "rfind c [] = None"
| "rfind c (x # xs) =
     (case rfind c xs of
        Some i \<Rightarrow> Some (Suc i)
      | None \<Rightarrow> if x = c then Some 0 else None)"

text \<open>\<open>s.split(sep)\<close> for a one-character separator.\<close>

fun split :: "char \<Rightarrow> string \<Rightarrow> string list" where
  "split sep [] = [[]]"
| "split sep (x # xs) =
     (if x = sep then [] # split sep xs
      else (case split sep xs of
              [] \<Rightarrow> [[x]]
            | w # ws \<Rightarrow> (x # w) # ws))"

fun join_sep :: "string \<Rightarrow> string list \<Rightarrow> string" where
  "join_sep sep [] = []"
| "join_sep sep [w] = w"
| "join_sep sep (w # ws) = w @ sep @ join_sep sep ws"

section \<open>The identifier: MD5 of the UTF-8 bytes, as a hex digest\<close>

text \<open>
  \<open>_hash\<close> calls \<open>hashlib.md5\<close>. MD5 (RFC 1321) is written out on 32-bit unsigned
  integers, as natural numbers with the reduction modulo \<open>2 ^ 32\<close> explicit.
\<close>

definition md5_shifts :: "nat list" where
  "md5_shifts =
     [7, 12, 17, 22, 7, 12, 17, 22, 7, 12, 17, 22, 7, 12, 17, 22,
      5, 9, 14, 20, 5, 9, 14, 20, 5, 9, 14, 20, 5, 9, 14, 20,
      4, 11, 16, 23, 4, 11, 16, 23, 4, 11, 16, 23, 4, 11, 16, 23,
      6, 10, 15, 21, 6, 10, 15, 21, 6, 10, 15, 21, 6, 10, 15, 21]"

definition md5_sines :: "nat list" where
  "md5_sines =
     [0xd76aa478, 0xe8c7b756, 0x242070db, 0xc1bdceee, 0xf57c0faf, 0x4787c62a, 0xa8304613, 0xfd469501,
      0x698098d8, 0x8b44f7af, 0xffff5bb1, 0x895cd7be, 0x6b901122, 0xfd987193, 0xa679438e, 0x49b40821,
      0xf61e2562, 0xc040b340, 0x265e5a51, 0xe9b6c7aa, 0xd62f105d, 0x02441453, 0xd8a1e681, 0xe7d3fbc8,
      0x21e1cde6, 0xc33707d6, 0xf4d50d87, 0x455a14ed, 0xa9e3e905, 0xfcefa3f8, 0x676f02d9, 0x8d2a4c8a,
      0xfffa3942, 0x8771f681, 0x6d9d6122, 0xfde5380c, 0xa4beea44, 0x4bdecfa9, 0xf6bb4b60, 0xbebfbc70,
      0x289b7ec6, 0xeaa127fa, 0xd4ef3085, 0x04881d05, 0xd9d4d039, 0xe6db99e5, 0x1fa27cf8, 0xc4ac5665,
      0xf4292244, 0x432aff97, 0xab9423a7, 0xfc93a039, 0x655b59c3, 0x8f0ccc92, 0xffeff47d, 0x85845dd1,
      0x6fa87e4f, 0xfe2ce6e0, 0xa3014314, 0x4e0811a1, 0xf7537e82, 0xbd3af235, 0x2ad7d2bb, 0xeb86d391]"

definition add32 :: "nat \<Rightarrow> nat \<Rightarrow> nat" where
  "add32 x y = (x + y) mod 4294967296"

definition not32 :: "nat \<Rightarrow> nat" where
  "not32 x = 4294967295 - x"

definition rotl32 :: "nat \<Rightarrow> nat \<Rightarrow> nat" where
  "rotl32 x c = (x * 2 ^ c) mod 4294967296 + x div 2 ^ (32 - c)"

fun le_bytes :: "nat \<Rightarrow> nat \<Rightarrow> nat list" where
  "le_bytes 0 v = []"
| "le_bytes (Suc n) v = v mod 256 # le_bytes n (v div 256)"

definition md5_pad :: "nat list \<Rightarrow> nat list" where
  "md5_pad m = m @ [128] @ replicate ((119 - length m mod 64) mod 64) 0
                 @ le_bytes 8 ((8 * length m) mod 2 ^ 64)"

fun le_words :: "nat list \<Rightarrow> nat list" where
  "le_words (b0 # b1 # b2 # b3 # bs) =
     (b0 + 256 * b1 + 65536 * b2 + 16777216 * b3) # le_words bs"
| "le_words _ = []"

type_synonym md5_state = "nat \<times> nat \<times> nat \<times> nat"

fun md5_step :: "nat list \<Rightarrow> nat \<Rightarrow> nat \<Rightarrow> nat \<Rightarrow> md5_state \<Rightarrow> md5_state" where
  "md5_step M i s k (a, b, c, d) =
     (if i < 16 then
        (d, add32 b (rotl32 (add32 (add32 (add32 ((b AND c) OR (not32 b AND d)) a) k) (M ! i)) s), b, c)
      else if i < 32 then
        (d, add32 b (rotl32 (add32 (add32 (add32 ((d AND b) OR (not32 d AND c)) a) k)
                               (M ! ((5 * i + 1) mod 16))) s), b, c)
      else if i < 48 then
        (d, add32 b (rotl32 (add32 (add32 (add32 (b XOR c XOR d) a) k)
                               (M ! ((3 * i + 5) mod 16))) s), b, c)
      else
        (d, add32 b (rotl32 (add32 (add32 (add32 (c XOR (b OR not32 d)) a) k)
                               (M ! ((7 * i) mod 16))) s), b, c))"

fun md5_rounds :: "nat list \<Rightarrow> nat \<Rightarrow> nat list \<Rightarrow> nat list \<Rightarrow> md5_state \<Rightarrow> md5_state" where
  "md5_rounds M i (s # ss) (k # ks) st = md5_rounds M (i + 1) ss ks (md5_step M i s k st)"
| "md5_rounds M i _ _ st = st"

fun md5_add :: "md5_state \<Rightarrow> md5_state \<Rightarrow> md5_state" where
  "md5_add (a0, b0, c0, d0) (a, b, c, d) = (add32 a0 a, add32 b0 b, add32 c0 c, add32 d0 d)"

definition md5_block :: "md5_state \<Rightarrow> nat list \<Rightarrow> md5_state" where
  "md5_block h M = md5_add h (md5_rounds M 0 md5_shifts md5_sines h)"

function md5_blocks :: "md5_state \<Rightarrow> nat list \<Rightarrow> md5_state" where
  "md5_blocks h ws =
     (if length ws < 16 then h else md5_blocks (md5_block h (take 16 ws)) (drop 16 ws))"
  by pat_completeness auto
termination
  by (relation "measure (\<lambda>(h, ws). length ws)") auto

declare md5_blocks.simps [simp del]

definition hexchar :: "nat \<Rightarrow> char" where
  "hexchar n = ''0123456789abcdef'' ! n"

definition hex_byte :: "nat \<Rightarrow> string" where
  "hex_byte b = [hexchar (b div 16), hexchar (b mod 16)]"

fun md5_hex :: "md5_state \<Rightarrow> string" where
  "md5_hex (a, b, c, d) =
     concat (map (\<lambda>w. concat (map hex_byte (le_bytes 4 w))) [a, b, c, d])"

definition md5_hexdigest :: "bytes \<Rightarrow> string" where
  "md5_hexdigest m =
     md5_hex (md5_blocks (0x67452301, 0xefcdab89, 0x98badcfe, 0x10325476)
                (le_words (md5_pad (map of_char m))))"

text \<open>\<open>_hash(data)\<close>, lines 16-19.\<close>

definition hash :: "string \<Rightarrow> string" where
  "hash data = md5_hexdigest data"

section \<open>Paths: the part of \<open>pathlib.PurePosixPath\<close> the program uses\<close>

text \<open>
  A path is its anchor (\<open>''''\<close>, \<open>''/''\<close> or \<open>''//''\<close>) and its list of components.
  \<open>pathlib.Path(s)\<close> drops empty and \<open>.\<close> components and keeps \<open>..\<close>; exactly two leading
  slashes are kept as the anchor \<open>//\<close>.
\<close>

datatype path = Path (anchor: string) (parts: "string list")

definition parse_path :: "string \<Rightarrow> path" where
  "parse_path s =
     (let rel = dropWhile (\<lambda>c. c = CHR ''/'') s;
          n = length s - length rel
      in Path (if n = 0 then '''' else if n = 2 then ''//'' else ''/'')
              (filter (\<lambda>x. x \<noteq> '''' \<and> x \<noteq> ''.'') (split CHR ''/'' rel)))"

definition path_str :: "path \<Rightarrow> string" where
  "path_str p =
     (let s = anchor p @ join_sep ''/'' (parts p) in if s = '''' then ''.'' else s)"

definition path_name :: "path \<Rightarrow> string" where
  "path_name p = (if parts p = [] then '''' else last (parts p))"

text \<open>\<open>suffix\<close>: \<open>i = name.rfind('.')\<close>, and \<open>name[i:]\<close> when \<open>0 < i < len(name) - 1\<close>.\<close>

definition path_suffix :: "path \<Rightarrow> string" where
  "path_suffix p =
     (let name = path_name p in
      case rfind CHR ''.'' name of
        None \<Rightarrow> ''''
      | Some i \<Rightarrow> if 0 < i \<and> i + 1 < length name then drop i name else '''')"

definition path_parent :: "path \<Rightarrow> path" where
  "path_parent p = Path (anchor p) (butlast (parts p))"

text \<open>\<open>p / q\<close>: an anchored right operand replaces the left one.\<close>

definition path_join :: "path \<Rightarrow> path \<Rightarrow> path" where
  "path_join p q = (if anchor q \<noteq> '''' then q else Path (anchor p) (parts p @ parts q))"

text \<open>The path \<open>iterdir\<close> yields for the directory entry \<open>nm\<close> of \<open>p\<close>.\<close>

definition child_path :: "path \<Rightarrow> string \<Rightarrow> path" where
  "child_path p nm = Path (anchor p) (parts p @ [nm])"

section \<open>Images\<close>

datatype image =
    RegularImage path
  | ArchivedImage path path string

definition IMAGE_EXTENSIONS :: "string set" where
  "IMAGE_EXTENSIONS = {''.jpg'', ''.jpeg'', ''.JPG'', ''.png'', ''.gif''}"

text \<open>
  The separator of line 113 as the file has it: the eight bytes C3 A2 E2 80 A0 E2 80 99
  between two spaces, that is the three code points U+00E2, U+2020, U+2019.
\<close>

definition gallery_separator :: string where
  "gallery_separator =
     '' '' @ [CHR 0xC3, CHR 0xA2, CHR 0xE2, CHR 0x80, CHR 0xA0, CHR 0xE2, CHR 0x80, CHR 0x99] @ '' ''"

text \<open>The arrow U+2192 in UTF-8, between two spaces.\<close>

definition arrow_separator :: string where
  "arrow_separator = '' '' @ [CHR 0xE2, CHR 0x86, CHR 0x92] @ '' ''"

fun gallery_id :: "image \<Rightarrow> string" where
  "gallery_id (RegularImage f) = hash (path_str (path_parent f))"
| "gallery_id (ArchivedImage a g e) = hash (path_str (path_join a g))"

fun gallery_name :: "image \<Rightarrow> string" where
  "gallery_name (RegularImage f) = path_str (path_parent f)"
| "gallery_name (ArchivedImage a g e) = path_str a @ gallery_separator @ path_str g"

fun gallery_location :: "image \<Rightarrow> path" where
  "gallery_location (RegularImage f) = path_parent f"
| "gallery_location (ArchivedImage a g e) = a"

fun image_id :: "image \<Rightarrow> string" where
  "image_id (RegularImage f) = hash (path_str f)"
| "image_id (ArchivedImage a g e) = hash (path_str (path_join g (parse_path e)))"

fun image_name :: "image \<Rightarrow> string" where
  "image_name (RegularImage f) = path_name f"
| "image_name (ArchivedImage a g e) = e"

section \<open>The file system\<close>

text \<open>
  What \<open>zipfile\<close> sees in a file: \<open>NotZip\<close> fails the probe \<open>is_zipfile\<close> and cannot be
  opened; \<open>BadZip\<close> passes the probe (it has an end-of-central-directory record) and
  cannot be opened; \<open>GoodZip\<close> opens, with its entries (\<open>ZipInfo.filename\<close> and
  contents) in \<open>infolist\<close> order. An entry of a directory is a regular file, a
  directory, or \<open>Other\<close>: neither of them, such as a broken symbolic link. Every file and
  directory can be read: permission errors are not part of the model.
\<close>

datatype zipview = NotZip | BadZip | GoodZip "(string \<times> bytes) list"

datatype node = File bytes zipview | Dir "(string \<times> node) list" | Other

fun is_zipfile :: "zipview \<Rightarrow> bool" where
  "is_zipfile NotZip = False"
| "is_zipfile BadZip = True"
| "is_zipfile (GoodZip es) = True"

fun ZipFile :: "zipview \<Rightarrow> error + (string \<times> bytes) list" where
  "ZipFile NotZip = Inl BadZipFile"
| "ZipFile BadZip = Inl BadZipFile"
| "ZipFile (GoodZip es) = Inr es"

text \<open>A file system is what a path resolves to; \<open>mount rootp tree\<close> puts a tree at a path.\<close>

type_synonym filesystem = "path \<Rightarrow> node option"

fun resolve :: "node \<Rightarrow> string list \<Rightarrow> node option" where
  "resolve n [] = Some n"
| "resolve (Dir children) (nm # rest) =
     (case map_of children nm of None \<Rightarrow> None | Some c \<Rightarrow> resolve c rest)"
| "resolve _ (nm # rest) = None"

definition mount :: "path \<Rightarrow> node \<Rightarrow> filesystem" where
  "mount rootp tree p =
     (if anchor p = anchor rootp \<and> take (length (parts rootp)) (parts p) = parts rootp
      then resolve tree (drop (length (parts rootp)) (parts p)) else None)"

text \<open>\<open>open(p, "rb").read()\<close>\<close>

definition read_file :: "filesystem \<Rightarrow> path \<Rightarrow> error + (bytes \<times> zipview)" where
  "read_file fs p =
     (case fs p of
        Some (File d z) \<Rightarrow> Inr (d, z)
      | Some (Dir cs) \<Rightarrow> Inl IsADirectoryError
      | _ \<Rightarrow> Inl FileNotFoundError)"

text \<open>
  \<open>get()\<close>, lines 73-74 and 103-105. \<open>z.open(name)\<close> raises \<open>KeyError\<close> for a name the
  archive does not have, and reads the last entry of a name it has twice.
\<close>

fun get :: "filesystem \<Rightarrow> image \<Rightarrow> error + bytes" where
  "get fs (RegularImage f) =
     (case read_file fs f of Inl e \<Rightarrow> Inl e | Inr (d, z) \<Rightarrow> Inr d)"
| "get fs (ArchivedImage a g e) =
     (case read_file fs a of
        Inl err \<Rightarrow> Inl err
      | Inr (d, z) \<Rightarrow>
          (case ZipFile z of
             Inl err \<Rightarrow> Inl err
           | Inr es \<Rightarrow>
               (case map_of (rev es) (path_str (path_join g (parse_path e))) of
                  None \<Rightarrow> Inl KeyError
                | Some b \<Rightarrow> Inr b)))"

section \<open>Traversal\<close>

text \<open>
  \<open>get_files\<close>, lines 127-146. The generator's result is the list of images it yields and
  the exception that ended it, if any: the images yielded before the exception have
  already reached the consumer.
\<close>

definition archived_images :: "path \<Rightarrow> (string \<times> bytes) list \<Rightarrow> image list" where
  "archived_images rootp infolist =
     map (\<lambda>afile. ArchivedImage rootp (path_parent (parse_path (fst afile)))
                                     (path_name (parse_path (fst afile))))
       (filter (\<lambda>afile. path_suffix (parse_path (fst afile)) \<in> IMAGE_EXTENSIONS) infolist)"

fun get_files :: "path \<Rightarrow> node \<Rightarrow> bool \<Rightarrow> image list \<times> error option"
  and get_files_children ::
    "path \<Rightarrow> (string \<times> node) list \<Rightarrow> bool \<Rightarrow> image list \<times> error option" where
  "get_files rootp (File d z) accelerate =
     (if startswith (path_name rootp) ''._'' then ([], None)
      else if path_suffix rootp \<in> IMAGE_EXTENSIONS then ([RegularImage rootp], None)
      else if (accelerate \<and> path_suffix rootp = ''.zip'') \<or> (\<not> accelerate \<and> is_zipfile z) then
        (case ZipFile z of
           Inl e \<Rightarrow> ([], Some e)
         | Inr infolist \<Rightarrow> (archived_images rootp infolist, None))
      else ([], None))"
| "get_files rootp (Dir children) accelerate =
     (if startswith (path_name rootp) ''._'' then ([], None)
      else get_files_children rootp children accelerate)"
| "get_files rootp Other accelerate = ([], None)"
| "get_files_children rootp [] accelerate = ([], None)"
| "get_files_children rootp ((nm, child) # rest) accelerate =
     (case get_files (child_path rootp nm) child accelerate of
        (ims, Some e) \<Rightarrow> (ims, Some e)
      | (ims, None) \<Rightarrow>
          (case get_files_children rootp rest accelerate of
             (ims', r) \<Rightarrow> (ims @ ims', r)))"

section \<open>The gallery index\<close>

text \<open>
  The class \<open>Galleries\<close>, lines 27-62. \<open>gallery_names\<close> is an association list in the
  insertion order of its keys, the order \<open>dict.items()\<close> has; storing under a key the
  dictionary has keeps the key's place. The other dictionaries are never iterated over.
\<close>

record galleries =
  images :: "string \<rightharpoonup> image"
  image_galleries :: "string \<rightharpoonup> image list"
  gallery_names :: "(string \<times> string) list"
  gallery_locations :: "string \<rightharpoonup> path"

definition Galleries :: galleries where
  "Galleries = \<lparr>images = Map.empty, image_galleries = Map.empty,
                 gallery_names = [], gallery_locations = Map.empty\<rparr>"

text \<open>
  \<open>image_galleries\<close> is a \<open>collections.defaultdict(list)\<close>: reading a key it does not have
  stores an empty list under the key and returns it.
\<close>

definition defaultdict_getitem ::
    "(string \<rightharpoonup> image list) \<Rightarrow> string \<Rightarrow> image list \<times> (string \<rightharpoonup> image list)" where
  "defaultdict_getitem d k = (case d k of Some v \<Rightarrow> (v, d) | None \<Rightarrow> ([], d(k \<mapsto> [])))"

definition insert_image :: "galleries \<Rightarrow> image \<Rightarrow> galleries" where
  "insert_image self im =
     (case defaultdict_getitem (image_galleries self) (gallery_id im) of
        (l, d) \<Rightarrow>
          self\<lparr>images := (images self)(image_id im \<mapsto> im),
               image_galleries := d(gallery_id im \<mapsto> l @ [im]),
               gallery_names := AList.update (gallery_id im) (gallery_name im) (gallery_names self),
               gallery_locations := (gallery_locations self)(gallery_id im \<mapsto> gallery_location im)\<rparr>)"

text \<open>
  Every query returns its result together with the index it leaves behind. The file
  system is what \<open>get()\<close> reads from at the time of the call.
\<close>

definition get_image :: "filesystem \<Rightarrow> galleries \<Rightarrow> string \<Rightarrow> (error + bytes) \<times> galleries" where
  "get_image fs self iid =
     (case images self iid of
        None \<Rightarrow> (Inl KeyError, self)
      | Some im \<Rightarrow> (get fs im, self))"

text \<open>\<open>sorted\<close> is stable, as \<open>sort_key\<close> is.\<close>

definition get_gallery_names :: "galleries \<Rightarrow> (string \<times> string) list \<times> galleries" where
  "get_gallery_names self = (sort_key snd (gallery_names self), self)"

definition get_gallery_name :: "galleries \<Rightarrow> string \<Rightarrow> (error + string) \<times> galleries" where
  "get_gallery_name self gid =
     (case map_of (gallery_names self) gid of
        None \<Rightarrow> (Inl KeyError, self)
      | Some n \<Rightarrow> (Inr n, self))"

text \<open>\<open>xs[i]\<close> on a list: a negative index counts from the end.\<close>

definition list_getitem :: "'a list \<Rightarrow> int \<Rightarrow> error + 'a" where
  "list_getitem xs i =
     (let n = int (length xs); j = (if i < 0 then i + n else i)
      in if 0 \<le> j \<and> j < n then Inr (xs ! nat j) else Inl IndexError)"

text \<open>
  \<open>random.choices(population, k=k)\<close> without weights is
  \<open>[population[floor(random() * n)] for i in repeat(None, k)]\<close> with \<open>n = len(population)\<close>
  as a float, and \<open>repeat(None, k)\<close> is empty for \<open>k \<le> 0\<close>. The random source is the
  argument \<open>draw\<close>: \<open>draw i n\<close> is the value of \<open>floor(random() * n)\<close> in the \<open>i\<close>-th
  iteration. Since \<open>random()\<close> is a float in \<open>[0, 1)\<close>, it is an index in \<open>0..n-1\<close> for
  every population of \<open>n \<ge> 1\<close> items that a list can hold; how the indices are distributed
  is a property of the source and of floating-point multiplication, which are not modelled.
\<close>

fun choices_from :: "int list \<Rightarrow> 'a list \<Rightarrow> error + 'a list" where
  "choices_from [] population = Inr []"
| "choices_from (j # js) population =
     (case list_getitem population j of
        Inl e \<Rightarrow> Inl e
      | Inr x \<Rightarrow>
          (case choices_from js population of
             Inl e \<Rightarrow> Inl e
           | Inr xs \<Rightarrow> Inr (x # xs)))"

definition choices :: "(nat \<Rightarrow> nat \<Rightarrow> int) \<Rightarrow> 'a list \<Rightarrow> int \<Rightarrow> error + 'a list" where
  "choices draw population k =
     choices_from (map (\<lambda>i. draw i (length population)) [0..<nat k]) population"

text \<open>
  \<open>random_images\<close>, lines 60-62. The subscript \<open>self.image_galleries[gallery_id]\<close> is
  evaluated first, so that the index keeps what the \<open>defaultdict\<close> stored even when
  \<open>random.choices\<close> raises.
\<close>

definition random_images ::
    "(nat \<Rightarrow> nat \<Rightarrow> int) \<Rightarrow> galleries \<Rightarrow> string \<Rightarrow> int \<Rightarrow> (error + image list) \<times> galleries" where
  "random_images draw self gid k =
     (case defaultdict_getitem (image_galleries self) gid of
        (l, d) \<Rightarrow> (choices draw l k, self\<lparr>image_galleries := d\<rparr>))"

text \<open>
  An index is built by inserting the images that traversals yield, one after the other,
  into \<open>Galleries\<close>: \<open>foldl insert_image Galleries ims\<close>. The function \<open>cli\<close> itself is
  not modelled: its first statement, line 189, reads the name \<open>check_archive\<close>, which is
  not defined (the parameter is \<open>check_archives\<close>), so that every call of it raises
  \<open>NameError\<close> before any traversal.
\<close>

section \<open>Predicates and inputs of the verification\<close>

text \<open>
  The order the specification gives for the listing of galleries: by display name, and by
  gallery id among equal names. The pairs are (gallery id, name).
\<close>

definition name_then_id_sorted :: "(string \<times> string) list \<Rightarrow> bool" where
  "name_then_id_sorted xs =
     sorted_wrt (\<lambda>x y. snd x < snd y \<or> (snd x = snd y \<and> fst x \<le> fst y)) xs"

text \<open>The invariant that \<open>insert_image\<close> maintains.\<close>

definition index_inv :: "galleries \<Rightarrow> bool" where
  "index_inv g \<longleftrightarrow>
     (\<forall>iid im. images g iid = Some im \<longrightarrow>
        (\<exists>l. image_galleries g (gallery_id im) = Some l \<and> im \<in> set l)) \<and>
     dom (image_galleries g) = fst ` set (gallery_names g) \<and>
     dom (gallery_locations g) = fst ` set (gallery_names g) \<and>
     (\<forall>gid l. image_galleries g gid = Some l \<longrightarrow> l \<noteq> [] \<and> (\<forall>im \<in> set l. gallery_id im = gid))"


text \<open>
  Two roots given in this order: a folder whose name is \<open>x.zip\<close>, the separator of line
  113, \<open>c\<close>, with one picture in it, and the archive \<open>x.zip\<close> with the entry
  \<open>c/q.jpg\<close>. They make two galleries of one display name.
\<close>

definition tie_dir_name :: string where
  "tie_dir_name = ''x.zip'' @ gallery_separator @ ''c''"

definition tie_dir :: node where
  "tie_dir = Dir [(''p.jpg'', File ''one'' NotZip)]"

definition tie_zip :: node where
  "tie_zip = File ''zip'' (GoodZip [(''c/q.jpg'', ''two'')])"

text \<open>Two pictures stored under the same internal path of two archives.\<close>

definition dup_first :: image where
  "dup_first = ArchivedImage (Path '''' [''x.zip'']) (Path '''' [''c'']) ''q.jpg''"


text \<open>
  The listing of a directory \<open>pics\<close> with two archives that both hold an entry
  \<open>x/p.jpg\<close>, of different contents, and the two images a traversal finds there.
\<close>

definition dup_children :: "(string \<times> node) list" where
  "dup_children =
     [(''a.zip'', File ''PK-a'' (GoodZip [(''x/p.jpg'', ''one'')])),
      (''b.zip'', File ''PK-b'' (GoodZip [(''x/p.jpg'', ''two'')]))]"

definition dup_a :: image where
  "dup_a = ArchivedImage (Path '''' [''pics'', ''a.zip'']) (Path '''' [''x'']) ''p.jpg''"

definition dup_b :: image where
  "dup_b = ArchivedImage (Path '''' [''pics'', ''b.zip'']) (Path '''' [''x'']) ''p.jpg''"



section \<open>Evaluating the identifier\<close>

lemma replicate_numeral: "replicate (numeral v) x = x # replicate (pred_numeral v) x"
  unfolding numeral_eq_Suc [of v] by (rule replicate_Suc)

lemma le_bytes_numeral: "le_bytes (numeral n) v = v mod 256 # le_bytes (pred_numeral n) (v div 256)"
  unfolding numeral_eq_Suc [of n] by (rule le_bytes.simps(2))

lemmas md5_eval = hash_def md5_hexdigest_def md5_pad_def replicate_numeral le_bytes_numeral
  md5_blocks.simps [of _ "_ # _"] md5_blocks.simps [of _ "[]"] md5_block_def md5_shifts_def
  md5_sines_def rotl32_def add32_def not32_def hex_byte_def hexchar_def

text \<open>The test suite of RFC 1321, in part.\<close>

lemma hash_empty: "hash '''' = ''d41d8cd98f00b204e9800998ecf8427e''"
  by (simp add: md5_eval)

lemma hash_abc: "hash ''abc'' = ''900150983cd24fb0d6963f7d28e17f72''"
  by (simp add: md5_eval)

lemma hash_tie_dir:
  "hash [CHR ''x'', CHR ''.'', CHR ''z'', CHR ''i'', CHR ''p'', CHR '' '',
         CHR 0xC3, CHR 0xA2, CHR 0xE2, CHR 0x80, CHR 0xA0, CHR 0xE2, CHR 0x80, CHR 0x99,
         CHR '' '', CHR ''c''] = ''675e417b3b67b9ebcf97418ab20ee0ee''"
  by (simp add: md5_eval)

lemma hash_x_zip_c: "hash ''x.zip/c'' = ''259706c40b25fb79cbad11abe85c15b3''"
  by (simp add: md5_eval)


section \<open>Traversal\<close>

lemmas traverse_eval = startswith_def path_name_def path_suffix_def child_path_def
  IMAGE_EXTENSIONS_def archived_images_def parse_path_def path_parent_def path_join_def
  path_str_def

lemma regular_not_archived: "RegularImage p \<notin> set (archived_images r es)"
  by (auto simp: archived_images_def)

lemma suffix_photo_bmp: "path_suffix (Path a (ps @ [''photo.bmp''])) = ''.bmp''"
  by (simp add: path_suffix_def path_name_def)

lemma suffix_photo_JPG: "path_suffix (Path a (ps @ [''photo.JPG''])) = ''.JPG''"
  by (simp add: path_suffix_def path_name_def)

text \<open>
  C8. An entry whose base name starts with \<open>._\<close> yields no image and raises nothing,
  whatever it is: a file, an archive, a directory with any content, or anything else. The
  result does not depend on what is below the entry, which is never visited.
\<close>

theorem get_files_skips_metadata:
  "startswith (path_name rootp) ''._'' \<Longrightarrow> get_files rootp n accelerate = ([], None)"
  by (cases n) simp_all

theorem get_files_skips_metadata_witness:
  "startswith (path_name (Path '''' [''pics'', ''._hidden.jpg''])) ''._'' \<and>
   get_files (Path '''' [''pics'', ''._hidden.jpg''])
     (Dir [(''a.jpg'', File ''x'' NotZip)]) True = ([], None)"
proof -
  have h: "startswith (path_name (Path '''' [''pics'', ''._hidden.jpg''])) ''._''"
    by (simp add: startswith_def path_name_def)
  show ?thesis
    using h get_files_skips_metadata [OF h, of "Dir [(''a.jpg'', File ''x'' NotZip)]" True]
    by (simp only: simp_thms)
qed

text \<open>
  C9, amended. A regular file whose base name does not start with \<open>._\<close> is emitted as a
  loose-file image exactly when its extension is one of \<open>.jpg\<close>, \<open>.jpeg\<close>, \<open>.JPG\<close>,
  \<open>.png\<close>, \<open>.gif\<close>, and then it is the only image emitted for it. A file named
  \<open>photo.bmp\<close> is never emitted, and a file named \<open>photo.JPG\<close> is, in any directory.
\<close>

theorem regular_file_emitted_iff:
  assumes "\<not> startswith (path_name rootp) ''._''"
  shows "(RegularImage rootp \<in> set (fst (get_files rootp (File d z) accelerate))
            \<longleftrightarrow> path_suffix rootp \<in> {''.jpg'', ''.jpeg'', ''.JPG'', ''.png'', ''.gif''}) \<and>
         (path_suffix rootp \<in> {''.jpg'', ''.jpeg'', ''.JPG'', ''.png'', ''.gif''} \<longrightarrow>
            get_files rootp (File d z) accelerate = ([RegularImage rootp], None)) \<and>
         RegularImage (Path a (ps @ [''photo.bmp''])) \<notin>
           set (fst (get_files (Path a (ps @ [''photo.bmp''])) (File d z) accelerate)) \<and>
         get_files (Path a (ps @ [''photo.JPG''])) (File d z) accelerate =
           ([RegularImage (Path a (ps @ [''photo.JPG'']))], None)"
proof -
  have bmp: "RegularImage (Path a (ps @ [''photo.bmp''])) \<notin>
           set (fst (get_files (Path a (ps @ [''photo.bmp''])) (File d z) accelerate))"
    by (auto simp: suffix_photo_bmp IMAGE_EXTENSIONS_def regular_not_archived split: sum.splits)
  have jpg: "get_files (Path a (ps @ [''photo.JPG''])) (File d z) accelerate =
           ([RegularImage (Path a (ps @ [''photo.JPG'']))], None)"
    by (simp add: suffix_photo_JPG IMAGE_EXTENSIONS_def startswith_def path_name_def)
  have iff: "(RegularImage rootp \<in> set (fst (get_files rootp (File d z) accelerate))
            \<longleftrightarrow> path_suffix rootp \<in> {''.jpg'', ''.jpeg'', ''.JPG'', ''.png'', ''.gif''}) \<and>
         (path_suffix rootp \<in> {''.jpg'', ''.jpeg'', ''.JPG'', ''.png'', ''.gif''} \<longrightarrow>
            get_files rootp (File d z) accelerate = ([RegularImage rootp], None))"
    using assms by (auto simp: IMAGE_EXTENSIONS_def regular_not_archived split: sum.splits)
  from iff bmp jpg show ?thesis by (elim conjE) (intro conjI; assumption)
qed

theorem regular_file_emitted_iff_witness:
  "\<not> startswith (path_name (Path '''' [''pics'', ''photo.JPG''])) ''._'' \<and>
   path_suffix (Path '''' [''pics'', ''photo.JPG'']) \<in> {''.jpg'', ''.jpeg'', ''.JPG'', ''.png'', ''.gif''} \<and>
   get_files (Path '''' [''pics'', ''photo.JPG'']) (File ''img'' NotZip) True =
     ([RegularImage (Path '''' [''pics'', ''photo.JPG''])], None)"
proof -
  have h: "\<not> startswith (path_name (Path '''' [''pics'', ''photo.JPG''])) ''._''"
    by (simp add: startswith_def path_name_def)
  have s: "path_suffix (Path '''' [''pics'', ''photo.JPG'']) \<in>
      {''.jpg'', ''.jpeg'', ''.JPG'', ''.png'', ''.gif''}"
    by (simp add: path_suffix_def path_name_def)
  show ?thesis
    using h s regular_file_emitted_iff [OF h, of "''img''" NotZip True]
    by (simp only: simp_thms)
qed

text \<open>
  The file \<open>._a.jpg\<close> has the extension \<open>.jpg\<close> and is not emitted: line 129 returns
  before the extension is looked at.
\<close>

theorem regular_file_emitted_iff_counterexample:
  "path_suffix (Path '''' [''pics'', ''._a.jpg'']) \<in> {''.jpg'', ''.jpeg'', ''.JPG'', ''.png'', ''.gif''} \<and>
   RegularImage (Path '''' [''pics'', ''._a.jpg'']) \<notin>
     set (fst (get_files (Path '''' [''pics'', ''._a.jpg'']) (File ''img'' NotZip) True))"
  by (simp add: startswith_def path_name_def path_suffix_def)

section \<open>An exception ends the traversal of the root\<close>







section \<open>The invariant of the index\<close>

lemma insert_image_fields [simp]:
  "images (insert_image g im) = (images g)(image_id im \<mapsto> im)"
  "image_galleries (insert_image g im) =
     (image_galleries g)(gallery_id im \<mapsto> fst (defaultdict_getitem (image_galleries g) (gallery_id im)) @ [im])"
  "gallery_names (insert_image g im) = AList.update (gallery_id im) (gallery_name im) (gallery_names g)"
  "gallery_locations (insert_image g im) = (gallery_locations g)(gallery_id im \<mapsto> gallery_location im)"
  by (simp_all add: insert_image_def defaultdict_getitem_def split: option.splits)

lemma index_inv_empty: "index_inv Galleries"
  by (simp add: index_inv_def Galleries_def)

lemma index_inv_images:
  assumes "index_inv g" "images g iid = Some im"
  shows "\<exists>l. image_galleries g (gallery_id im) = Some l \<and> im \<in> set l"
  using assms(1) [unfolded index_inv_def, THEN conjunct1, rule_format, OF assms(2)] .

lemma index_inv_dom_galleries:
  assumes "index_inv g"
  shows "dom (image_galleries g) = fst ` set (gallery_names g)"
  using assms [unfolded index_inv_def, THEN conjunct2, THEN conjunct1] .

lemma index_inv_dom_locations:
  assumes "index_inv g"
  shows "dom (gallery_locations g) = fst ` set (gallery_names g)"
  using assms [unfolded index_inv_def, THEN conjunct2, THEN conjunct2, THEN conjunct1] .

lemma index_inv_lists:
  assumes "index_inv g" "image_galleries g gid = Some l"
  shows "l \<noteq> [] \<and> (\<forall>im \<in> set l. gallery_id im = gid)"
  using assms(1) [unfolded index_inv_def, THEN conjunct2, THEN conjunct2, THEN conjunct2,
      THEN spec, THEN spec, THEN mp, OF assms(2)] .

lemma index_inv_insert:
  assumes "index_inv g"
  shows "index_inv (insert_image g im)"
  unfolding index_inv_def
proof (intro conjI allI impI)
  fix iid im'
  assume a: "images (insert_image g im) iid = Some im'"
  show "\<exists>l. image_galleries (insert_image g im) (gallery_id im') = Some l \<and> im' \<in> set l"
  proof (cases "iid = image_id im")
    case True
    with a have "im' = im" by simp
    then show ?thesis by simp
  next
    case False
    with a have "images g iid = Some im'" by simp
    from index_inv_images [OF assms this]
    obtain l where l: "image_galleries g (gallery_id im') = Some l" "im' \<in> set l"
      by (elim exE conjE)
    show ?thesis
    proof (cases "gallery_id im' = gallery_id im")
      case True
      with l have "image_galleries g (gallery_id im) = Some l" by simp
      with l(2) True show ?thesis by (simp add: defaultdict_getitem_def)
    next
      case False
      with l show ?thesis by simp
    qed
  qed
next
  show "dom (image_galleries (insert_image g im)) = fst ` set (gallery_names (insert_image g im))"
    by (simp add: index_inv_dom_galleries [OF assms] dom_update)
next
  show "dom (gallery_locations (insert_image g im)) = fst ` set (gallery_names (insert_image g im))"
    by (simp add: index_inv_dom_locations [OF assms] dom_update)
next
  fix gid l
  assume a: "image_galleries (insert_image g im) gid = Some l"
  show "l \<noteq> []"
  proof (cases "gid = gallery_id im")
    case True
    with a have "l = fst (defaultdict_getitem (image_galleries g) gid) @ [im]" by simp
    then show ?thesis by simp
  next
    case False
    with a have "image_galleries g gid = Some l" by simp
    from index_inv_lists [OF assms this] show ?thesis by (rule conjunct1)
  qed
next
  fix gid l
  assume a: "image_galleries (insert_image g im) gid = Some l"
  show "\<forall>im \<in> set l. gallery_id im = gid"
  proof (cases "gid = gallery_id im")
    case True
    with a have l: "l = fst (defaultdict_getitem (image_galleries g) gid) @ [im]" by simp
    have "\<forall>x \<in> set (fst (defaultdict_getitem (image_galleries g) gid)). gallery_id x = gid"
    proof (cases "image_galleries g gid")
      case None
      then show ?thesis by (simp add: defaultdict_getitem_def)
    next
      case (Some l')
      with index_inv_lists [OF assms Some] show ?thesis
        by (simp add: defaultdict_getitem_def)
    qed
    with l True show ?thesis by simp
  next
    case False
    with a have "image_galleries g gid = Some l" by simp
    from index_inv_lists [OF assms this] show ?thesis by (rule conjunct2)
  qed
qed

lemma index_inv_foldl: "index_inv g \<Longrightarrow> index_inv (foldl insert_image g ims)"
  by (induction ims arbitrary: g) (simp_all add: index_inv_insert)

lemma built_gallery_members:
  assumes "x \<in> set (fst (defaultdict_getitem (image_galleries (foldl insert_image Galleries ims)) gid))"
  shows "gallery_id x = gid"
proof -
  have inv: "index_inv (foldl insert_image Galleries ims)"
    by (rule index_inv_foldl [OF index_inv_empty])
  show ?thesis
  proof (cases "image_galleries (foldl insert_image Galleries ims) gid")
    case None
    with assms show ?thesis by (simp add: defaultdict_getitem_def)
  next
    case (Some l)
    with assms have "x \<in> set l" by (simp add: defaultdict_getitem_def)
    with index_inv_lists [OF inv Some] show ?thesis by simp
  qed
qed




section \<open>The image id of an archived image\<close>

text \<open>
  C10. Two archived images with the same internal folder and entry name have the same
  image_id, whatever their archives; after inserting both into any index, the image_id
  mapping holds the later one under that image_id.
\<close>

theorem archived_image_id_ignores_archive:
  "image_id (ArchivedImage a1 g e) = image_id (ArchivedImage a2 g e) \<and>
   images (insert_image (insert_image idx (ArchivedImage a1 g e)) (ArchivedImage a2 g e))
     (image_id (ArchivedImage a1 g e)) = Some (ArchivedImage a2 g e)"
  by simp

text \<open>
  C1, at a failing input. The directory \<open>pics\<close> holds \<open>a.zip\<close> and \<open>b.zip\<close>, each with an
  entry \<open>x/p.jpg\<close>. The traversal yields one image for each; \<open>get()\<close> of the image of
  \<open>a.zip\<close> reads the bytes stored in \<open>a.zip\<close>, and \<open>get_image\<close> at its image_id returns
  the bytes stored in \<open>b.zip\<close>: both images have the image id of \<open>x/p.jpg\<close>, and the one
  of \<open>b.zip\<close> was inserted later. With the directory listed in the other order, it is for
  the image of \<open>b.zip\<close> that \<open>get_image\<close> returns the bytes of \<open>a.zip\<close>.
\<close>

theorem get_image_collision:
  "get_files (Path '''' [''pics'']) (Dir dup_children) True = ([dup_a, dup_b], None) \<and>
   get (mount (Path '''' [''pics'']) (Dir dup_children)) dup_a = Inr ''one'' \<and>
   fst (get_image (mount (Path '''' [''pics'']) (Dir dup_children))
          (foldl insert_image Galleries
             (fst (get_files (Path '''' [''pics'']) (Dir dup_children) True)))
          (image_id dup_a)) = Inr ''two'' \<and>
   get_files (Path '''' [''pics'']) (Dir (rev dup_children)) True = ([dup_b, dup_a], None) \<and>
   get (mount (Path '''' [''pics'']) (Dir (rev dup_children))) dup_b = Inr ''two'' \<and>
   fst (get_image (mount (Path '''' [''pics'']) (Dir (rev dup_children)))
          (foldl insert_image Galleries
             (fst (get_files (Path '''' [''pics'']) (Dir (rev dup_children)) True)))
          (image_id dup_b)) = Inr ''one''"
  by (simp add: dup_children_def dup_a_def dup_b_def traverse_eval mount_def read_file_def
      get_image_def)

section \<open>Display names\<close>

text \<open>
  C6, at a failing input. The gallery name of the archived image of \<open>a.zip\<close>, folder \<open>x\<close>:
  between the two path strings stands the separator of line 113, which is not the arrow
  between two spaces.
\<close>

theorem gallery_name_archived_value:
  "gallery_name (ArchivedImage (Path '''' [''a.zip'']) (Path '''' [''x'']) ''p.jpg'') =
     ''a.zip '' @ [CHR 0xC3, CHR 0xA2, CHR 0xE2, CHR 0x80, CHR 0xA0, CHR 0xE2, CHR 0x80, CHR 0x99] @ '' x'' \<and>
   gallery_name (ArchivedImage (Path '''' [''a.zip'']) (Path '''' [''x'']) ''p.jpg'') \<noteq>
     path_str (Path '''' [''a.zip'']) @ arrow_separator @ path_str (Path '''' [''x''])"
  by (simp add: path_str_def gallery_separator_def arrow_separator_def)

lemma update_keys:
  "map fst (AList.update k v al) =
     (if k \<in> set (map fst al) then map fst al else map fst al @ [k])"
  by (induction al) auto

lemma built_keys:
  "map fst (gallery_names (foldl insert_image Galleries ims)) =
     rev (remdups (rev (map gallery_id ims)))"
proof (induction ims rule: rev_induct)
  case Nil
  then show ?case by (simp add: Galleries_def)
next
  case (snoc x xs)
  let ?al = "gallery_names (foldl insert_image Galleries xs)"
  have keys: "set (map fst ?al) = gallery_id ` set xs"
    unfolding snoc.IH by simp
  have "map fst (gallery_names (foldl insert_image Galleries (xs @ [x]))) =
          map fst (AList.update (gallery_id x) (gallery_name x) ?al)"
    by simp
  also have "\<dots> = (if gallery_id x \<in> gallery_id ` set xs then map fst ?al
                   else map fst ?al @ [gallery_id x])"
    unfolding update_keys keys ..
  also have "\<dots> = rev (remdups (rev (map gallery_id (xs @ [x]))))"
    unfolding snoc.IH by simp
  finally show ?case .
qed

text \<open>
  C5, amended. \<open>get_gallery_names\<close> returns all the pairs of \<open>gallery_names\<close>, sorted by
  display name, pairs of equal names keeping the order they have in the dictionary; in an
  index built by insertion that is the order in which their gallery ids were first
  inserted. The call leaves the index as it is, and a second call returns the same list.
\<close>

theorem get_gallery_names_sorted_stable:
  "snd (get_gallery_names g) = g \<and>
   set (fst (get_gallery_names g)) = set (gallery_names g) \<and>
   length (fst (get_gallery_names g)) = length (gallery_names g) \<and>
   sorted (map snd (fst (get_gallery_names g))) \<and>
   (\<forall>n. filter (\<lambda>x. snd x = n) (fst (get_gallery_names g)) =
        filter (\<lambda>x. snd x = n) (gallery_names g)) \<and>
   fst (get_gallery_names (snd (get_gallery_names g))) = fst (get_gallery_names g) \<and>
   map fst (gallery_names (foldl insert_image Galleries ims)) =
     rev (remdups (rev (map gallery_id ims)))"
  by (simp add: get_gallery_names_def sort_key_stable built_keys)

text \<open>
  A folder and an archive, given as two roots, whose galleries have the same display name
  and different ids. The folder is inserted first and listed first, and its id is the
  greater one.
\<close>

theorem gallery_names_tie_counterexample:
  "fst (get_files (Path '''' [tie_dir_name]) tie_dir True) @
   fst (get_files (Path '''' [''x.zip'']) tie_zip True) =
     [RegularImage (Path '''' [tie_dir_name, ''p.jpg'']),
      ArchivedImage (Path '''' [''x.zip'']) (Path '''' [''c'']) ''q.jpg''] \<and>
   fst (get_gallery_names (foldl insert_image Galleries
         [RegularImage (Path '''' [tie_dir_name, ''p.jpg'']),
          ArchivedImage (Path '''' [''x.zip'']) (Path '''' [''c'']) ''q.jpg''])) =
     [(''675e417b3b67b9ebcf97418ab20ee0ee'', tie_dir_name),
      (''259706c40b25fb79cbad11abe85c15b3'', tie_dir_name)] \<and>
   \<not> name_then_id_sorted
       (fst (get_gallery_names (foldl insert_image Galleries
         [RegularImage (Path '''' [tie_dir_name, ''p.jpg'']),
          ArchivedImage (Path '''' [''x.zip'']) (Path '''' [''c'']) ''q.jpg''])))"
  by (simp add: tie_dir_name_def tie_dir_def tie_zip_def gallery_separator_def traverse_eval
      defaultdict_getitem_def Galleries_def get_gallery_names_def name_then_id_sorted_def
      hash_tie_dir hash_x_zip_c)

section \<open>Sampling\<close>

lemma list_getitem_inrange:
  "0 \<le> j \<Longrightarrow> j < int (length xs) \<Longrightarrow> list_getitem xs j = Inr (xs ! nat j)"
  by (simp add: list_getitem_def Let_def)

lemma choices_from_inrange:
  assumes "\<forall>j \<in> set js. 0 \<le> j \<and> j < int (length xs)"
  shows "choices_from js xs = Inr (map (\<lambda>j. xs ! nat j) js)"
  using assms by (induction js) (simp_all add: list_getitem_inrange)

lemma choices_from_empty: "js \<noteq> [] \<Longrightarrow> choices_from js [] = Inl IndexError"
  by (cases js) (simp_all add: list_getitem_def)

lemma choices_nonempty:
  assumes "\<forall>i n. 0 < n \<longrightarrow> 0 \<le> draw i n \<and> draw i n < int n" "xs \<noteq> []"
  shows "choices draw xs k = Inr (map (\<lambda>i. xs ! nat (draw i (length xs))) [0..<nat k])"
proof -
  have "0 < length xs" using assms(2) by simp
  with assms(1) have "\<forall>i. 0 \<le> draw i (length xs) \<and> draw i (length xs) < int (length xs)"
    by simp
  then have "\<forall>j \<in> set (map (\<lambda>i. draw i (length xs)) [0..<nat k]).
               0 \<le> j \<and> j < int (length xs)"
    by auto
  from choices_from_inrange [OF this] show ?thesis
    by (simp add: choices_def comp_def)
qed

lemma choices_empty: "0 < k \<Longrightarrow> choices draw [] k = Inl IndexError"
  by (simp add: choices_def choices_from_empty)

lemma choices_nonpositive: "k \<le> 0 \<Longrightarrow> choices draw xs k = Inr []"
  by (simp add: choices_def)

lemma random_images_fst:
  "fst (random_images draw g gid k) =
     choices draw (fst (defaultdict_getitem (image_galleries g) gid)) k"
  by (simp add: random_images_def split: prod.splits)

text \<open>
  C2, amended. For a random source whose draws are indices of the population:
  \<open>random_images\<close> returns the empty list for \<open>k \<le> 0\<close>, whatever the gallery; for
  \<open>k \<ge> 1\<close> it raises \<open>IndexError\<close> when the gallery has no image, as for a gallery id the
  index does not know, and otherwise it returns exactly \<open>k\<close> images, the \<open>i\<close>-th being the
  element of the gallery's list at the index of the \<open>i\<close>-th draw, all of them from that
  list. In an index built by insertion, the images of that list have the gallery id asked
  for.
\<close>

theorem random_images_draws:
  assumes "\<forall>i n. 0 < n \<longrightarrow> 0 \<le> draw i n \<and> draw i n < int n"
    and "l = fst (defaultdict_getitem (image_galleries g) gid)"
  shows "(k \<le> 0 \<longrightarrow> fst (random_images draw g gid k) = Inr []) \<and>
         (0 < k \<and> l = [] \<longrightarrow> fst (random_images draw g gid k) = Inl IndexError) \<and>
         (0 < k \<and> l \<noteq> [] \<longrightarrow>
            (\<exists>xs. fst (random_images draw g gid k) = Inr xs \<and> int (length xs) = k \<and>
               (\<forall>i < length xs. nat (draw i (length l)) < length l \<and>
                                xs ! i = l ! nat (draw i (length l))) \<and>
               set xs \<subseteq> set l)) \<and>
         (g = foldl insert_image Galleries ims \<longrightarrow> (\<forall>x \<in> set l. gallery_id x = gid))"
proof (intro conjI impI)
  assume "k \<le> 0"
  then show "fst (random_images draw g gid k) = Inr []"
    by (simp add: random_images_fst choices_nonpositive)
next
  assume "0 < k \<and> l = []"
  then show "fst (random_images draw g gid k) = Inl IndexError"
    using assms(2) by (simp add: random_images_fst choices_empty)
next
  assume a: "0 < k \<and> l \<noteq> []"
  let ?xs = "map (\<lambda>i. l ! nat (draw i (length l))) [0..<nat k]"
  have r: "fst (random_images draw g gid k) = Inr ?xs"
    unfolding random_images_fst assms(2) [symmetric]
    using a assms(1) by (intro choices_nonempty) simp_all
  have idx: "nat (draw i (length l)) < length l" for i
  proof -
    have "0 < length l" using a by simp
    with assms(1) have "0 \<le> draw i (length l) \<and> draw i (length l) < int (length l)"
      by simp
    then show ?thesis by linarith
  qed
  have len: "int (length ?xs) = k" using a by simp
  have nth: "\<forall>i < length ?xs. nat (draw i (length l)) < length l \<and>
                ?xs ! i = l ! nat (draw i (length l))"
    using idx by simp
  have sub: "set ?xs \<subseteq> set l"
  proof
    fix x assume "x \<in> set ?xs"
    then obtain i where "x = l ! nat (draw i (length l))" by auto
    with idx [of i] show "x \<in> set l" by simp
  qed
  from r len nth sub
  show "\<exists>xs. fst (random_images draw g gid k) = Inr xs \<and> int (length xs) = k \<and>
               (\<forall>i < length xs. nat (draw i (length l)) < length l \<and>
                                xs ! i = l ! nat (draw i (length l))) \<and>
               set xs \<subseteq> set l"
    by (intro exI [of _ ?xs] conjI)
next
  assume g: "g = foldl insert_image Galleries ims"
  show "\<forall>x \<in> set l. gallery_id x = gid"
  proof
    fix x assume "x \<in> set l"
    then show "gallery_id x = gid"
      unfolding assms(2) g by (rule built_gallery_members)
  qed
qed

theorem random_images_draws_witness:
  "[dup_first] = fst (defaultdict_getitem
      (image_galleries (foldl insert_image Galleries [dup_first])) (gallery_id dup_first)) \<and>
   (\<exists>xs. fst (random_images (\<lambda>i n. 0) (foldl insert_image Galleries [dup_first])
             (gallery_id dup_first) 2) = Inr xs \<and> int (length xs) = 2 \<and> set xs \<subseteq> set [dup_first])"
proof -
  have h1: "\<forall>i n. 0 < n \<longrightarrow> (0::int) \<le> (\<lambda>(i::nat) (n::nat). 0) i n \<and> (\<lambda>(i::nat) (n::nat). 0) i n < int n"
    by simp
  have h2: "[dup_first] = fst (defaultdict_getitem
      (image_galleries (foldl insert_image Galleries [dup_first])) (gallery_id dup_first))"
    by (simp add: defaultdict_getitem_def Galleries_def)
  have h3: "(0::int) < 2 \<and> [dup_first] \<noteq> []" by simp
  note t = random_images_draws [OF h1 h2, where k = 2, THEN conjunct2, THEN conjunct2,
      THEN conjunct1, THEN mp, OF h3]
  from t obtain xs where xs: "fst (random_images (\<lambda>i n. 0) (foldl insert_image Galleries [dup_first])
             (gallery_id dup_first) 2) = Inr xs" "int (length xs) = 2" "set xs \<subseteq> set [dup_first]"
    by (elim exE conjE)
  have e: "\<exists>xs. fst (random_images (\<lambda>i n. 0) (foldl insert_image Galleries [dup_first])
             (gallery_id dup_first) 2) = Inr xs \<and> int (length xs) = 2 \<and> set xs \<subseteq> set [dup_first]"
    using xs by (intro exI [of _ xs] conjI)
  from h2 e show ?thesis by (intro conjI)
qed

text \<open>
  With \<open>k = 0\<close>, a gallery without images gives the empty list and no exception; with
  \<open>k = -1\<close>, a gallery of one image gives the empty list, which has not \<open>k\<close> elements.
\<close>

theorem random_images_draws_counterexample:
  "fst (defaultdict_getitem (image_galleries Galleries) ''nowhere'') = [] \<and>
   fst (random_images (\<lambda>i n. 0) Galleries ''nowhere'' 0) = Inr [] \<and>
   fst (defaultdict_getitem (image_galleries (foldl insert_image Galleries [dup_first]))
          (gallery_id dup_first)) = [dup_first] \<and>
   fst (random_images (\<lambda>i n. 0) (foldl insert_image Galleries [dup_first])
          (gallery_id dup_first) (- 1)) = Inr []"
  by (simp add: random_images_def choices_def defaultdict_getitem_def Galleries_def)

section \<open>What the queries leave of the index\<close>

text \<open>The digest has 32 characters, so that a shorter word is no identifier.\<close>

lemma hash_length: "length (hash s) = 32"
proof -
  obtain a b c d where
    "md5_blocks (0x67452301, 0xefcdab89, 0x98badcfe, 0x10325476)
       (le_words (md5_pad (map of_char s))) = (a, b, c, d)"
    by (cases "md5_blocks (0x67452301, 0xefcdab89, 0x98badcfe, 0x10325476)
       (le_words (md5_pad (map of_char s)))") auto
  then show ?thesis
    by (simp add: hash_def md5_hexdigest_def le_bytes_numeral hex_byte_def)
qed

text \<open>
  C3, amended. \<open>get_image\<close>, \<open>get_gallery_names\<close> and \<open>get_gallery_name\<close> leave the index
  as it is, for every argument. \<open>random_images\<close> leaves \<open>images\<close>, \<open>gallery_names\<close> and
  \<open>gallery_locations\<close> as they are, and leaves of \<open>image_galleries\<close> what the subscript
  \<open>image_galleries[gallery_id]\<close> leaves, also when it raises: the same mapping when
  \<open>gallery_id\<close> is one of its keys, and the mapping with the new entry of \<open>gallery_id\<close> and
  the empty list when it is not.
\<close>

theorem queries_frame:
  "snd (get_image fs g iid) = g \<and>
   snd (get_gallery_names g) = g \<and>
   snd (get_gallery_name g gid) = g \<and>
   images (snd (random_images draw g gid k)) = images g \<and>
   gallery_names (snd (random_images draw g gid k)) = gallery_names g \<and>
   gallery_locations (snd (random_images draw g gid k)) = gallery_locations g \<and>
   image_galleries (snd (random_images draw g gid k)) =
     snd (defaultdict_getitem (image_galleries g) gid) \<and>
   snd (defaultdict_getitem (image_galleries g) gid) =
     (if gid \<in> dom (image_galleries g) then image_galleries g
      else (image_galleries g)(gid \<mapsto> [])) \<and>
   (gid \<in> dom (image_galleries g) \<longrightarrow> snd (random_images draw g gid k) = g)"
proof (cases "image_galleries g gid")
  case None
  then show ?thesis
    by (simp add: get_image_def get_gallery_names_def get_gallery_name_def random_images_def
      defaultdict_getitem_def domIff split: option.splits)
next
  case (Some l)
  then have "gid \<in> dom (image_galleries g)" by (rule domI)
  with Some show ?thesis
    by (simp add: get_image_def get_gallery_names_def get_gallery_name_def random_images_def
      defaultdict_getitem_def split: option.splits)
qed

theorem queries_frame_witness:
  "gallery_id dup_first \<in> dom (image_galleries (foldl insert_image Galleries [dup_first])) \<and>
   snd (random_images (\<lambda>i n. 0) (foldl insert_image Galleries [dup_first]) (gallery_id dup_first) 3) =
     foldl insert_image Galleries [dup_first]"
proof -
  have h: "gallery_id dup_first \<in> dom (image_galleries (foldl insert_image Galleries [dup_first]))"
    by simp
  note t = queries_frame [where g = "foldl insert_image Galleries [dup_first]"
      and gid = "gallery_id dup_first" and draw = "\<lambda>i n. 0" and k = 3,
      THEN conjunct2, THEN conjunct2, THEN conjunct2, THEN conjunct2, THEN conjunct2,
      THEN conjunct2, THEN conjunct2, THEN conjunct2, THEN mp, OF h]
  from h t show ?thesis by (intro conjI)
qed

text \<open>
  In the index of one image, sampling three images of the unknown gallery \<open>nowhere\<close> raises
  \<open>IndexError\<close> and leaves \<open>nowhere\<close> in \<open>image_galleries\<close>, with the empty list.
\<close>

theorem queries_frame_counterexample:
  "image_galleries (foldl insert_image Galleries [dup_first]) ''nowhere'' = None \<and>
   fst (random_images (\<lambda>i n. 0) (foldl insert_image Galleries [dup_first]) ''nowhere'' 3) =
     Inl IndexError \<and>
   image_galleries
     (snd (random_images (\<lambda>i n. 0) (foldl insert_image Galleries [dup_first]) ''nowhere'' 3))
     ''nowhere'' = Some [] \<and>
   image_galleries
     (snd (random_images (\<lambda>i n. 0) (foldl insert_image Galleries [dup_first]) ''nowhere'' 3)) \<noteq>
   image_galleries (foldl insert_image Galleries [dup_first])"
proof -
  have ne: "''nowhere'' \<noteq> gallery_id dup_first"
  proof
    assume "''nowhere'' = gallery_id dup_first"
    then have "length ''nowhere'' = length (gallery_id dup_first)" by simp
    then show False by (simp add: dup_first_def hash_length)
  qed
  have none: "image_galleries (foldl insert_image Galleries [dup_first]) ''nowhere'' = None"
    using ne by (simp add: Galleries_def)
  have r: "fst (random_images (\<lambda>i n. 0) (foldl insert_image Galleries [dup_first]) ''nowhere'' 3) =
     Inl IndexError"
    unfolding random_images_fst using none
    by (simp add: defaultdict_getitem_def choices_empty)
  have some: "image_galleries
     (snd (random_images (\<lambda>i n. 0) (foldl insert_image Galleries [dup_first]) ''nowhere'' 3))
     ''nowhere'' = Some []"
    using none by (simp add: random_images_def defaultdict_getitem_def)
  have neq: "image_galleries
     (snd (random_images (\<lambda>i n. 0) (foldl insert_image Galleries [dup_first]) ''nowhere'' 3)) \<noteq>
   image_galleries (foldl insert_image Galleries [dup_first])"
  proof
    assume "image_galleries
     (snd (random_images (\<lambda>i n. 0) (foldl insert_image Galleries [dup_first]) ''nowhere'' 3)) =
   image_galleries (foldl insert_image Galleries [dup_first])"
    then have "image_galleries
     (snd (random_images (\<lambda>i n. 0) (foldl insert_image Galleries [dup_first]) ''nowhere'' 3))
     ''nowhere'' = image_galleries (foldl insert_image Galleries [dup_first]) ''nowhere''"
      by (rule arg_cong [where f = "\<lambda>m. m ''nowhere''"])
    with none some show False by simp
  qed
  from none r some neq show ?thesis by (intro conjI)
qed

end
